theory Spec2Isabelle
  imports Complex_Main
begin

section \<open>JavaScript values read by the two classes\<close>

text \<open>
  The settings object holds values of mixed type: \<open>fragmentSelection\<close> is \<open>true\<close>,
  \<open>false\<close> or the string \<open>'cell'\<close>; a rendering offset is a number or the string
  \<open>'auto'\<close>; a fixed-pane count is a number. The handlers test them with \<open>===\<close>,
  \<open>typeof\<close> and plain truthiness, so the model keeps the tag of each value.
  Numbers are the integers (indexes, counts and offsets of a grid).
\<close>

datatype jsval = JUndefined | JBool bool | JNum int | JStr string

fun truthy :: "jsval \<Rightarrow> bool" where
  "truthy JUndefined = False"
| "truthy (JBool b) = b"
| "truthy (JNum n) = (n \<noteq> 0)"
| "truthy (JStr s) = (s \<noteq> [])"

section \<open>tableView.js: the viewport calculator overrides\<close>

text \<open>
  The calculator object handed to an override, with the fields the two overrides read
  or assign.
\<close>

record calc =
  startRow :: int
  endRow :: int
  startColumn :: int
  endColumn :: int

text \<open>
  A DOM node is known by its identity. \<open>outsideClickDeselects\<close> is a value, or a
  function of the clicked node (\<open>typeof ... === 'function'\<close>, line 234).
\<close>

type_synonym node = nat

datatype outsideClickDeselects_setting =
    DeselectsFunction "node \<Rightarrow> jsval"
  | DeselectsValue jsval

record settings =
  fragmentSelection :: jsval
  outsideClickDeselects :: outsideClickDeselects_setting
  viewportRowRenderingOffset :: jsval
  viewportColumnRenderingOffset :: jsval
  fixedRowsTop :: jsval
  fixedColumnsLeft :: jsval

text \<open>
  \<open>Math.ceil(center / total * 12)\<close>, computed over the rationals. The source divides
  two doubles; for a total of zero the quotient is \<open>NaN\<close> or an infinity, which no
  integer stands for, so the overrides below return \<open>None\<close> in that one case and
  \<open>Some\<close> of the calculator in every other.
\<close>

definition proportionalOffset :: "int \<Rightarrow> int \<Rightarrow> int" where
  "proportionalOffset center count = \<lceil>(of_int center / of_int count * 12 :: rat)\<rceil>"

text \<open>
  \<open>viewportRowCalculatorOverride\<close> (lines 427-446). \<open>rows\<close> is
  \<open>instance.countRows()\<close>; \<open>hook\<close> stands for the listeners of
  \<open>afterViewportRowCalculatorOverride\<close>, which receive the calculator last and may
  change it.
\<close>

definition viewportRowCalculatorOverride ::
  "settings \<Rightarrow> int \<Rightarrow> (calc \<Rightarrow> calc) \<Rightarrow> calc \<Rightarrow> calc option" where
  "viewportRowCalculatorOverride st rows hook calc0 =
     (let viewportOffset =
            (if viewportRowRenderingOffset st = JStr ''auto'' \<and> truthy (fixedRowsTop st)
             then JNum 10 else viewportRowRenderingOffset st);
          calc1 =
            (case viewportOffset of
               JNum n \<Rightarrow>
                 calc0\<lparr>startRow := max (startRow calc0 - n) 0,
                       endRow := min (endRow calc0 + n) (rows - 1)\<rparr>
             | _ \<Rightarrow> calc0)
      in if viewportOffset = JStr ''auto'' then
           (if rows = 0 then None
            else
              let center = startRow calc1 + endRow calc1 - startRow calc1;
                  offset = proportionalOffset center rows
              in Some (hook (calc1\<lparr>startRow := max (startRow calc1 - offset) 0,
                                    endRow := min (endRow calc1 + offset) (rows - 1)\<rparr>)))
         else Some (hook calc1))"

text \<open>
  \<open>viewportColumnCalculatorOverride\<close> (lines 447-466). In the \<open>'auto'\<close> branch
  the source assigns \<open>calc.startRow\<close> from \<open>calc.startColumn\<close> (line 462).
\<close>

definition viewportColumnCalculatorOverride ::
  "settings \<Rightarrow> int \<Rightarrow> (calc \<Rightarrow> calc) \<Rightarrow> calc \<Rightarrow> calc option" where
  "viewportColumnCalculatorOverride st cols hook calc0 =
     (let viewportOffset =
            (if viewportColumnRenderingOffset st = JStr ''auto'' \<and> truthy (fixedColumnsLeft st)
             then JNum 10 else viewportColumnRenderingOffset st);
          calc1 =
            (case viewportOffset of
               JNum n \<Rightarrow>
                 calc0\<lparr>startColumn := max (startColumn calc0 - n) 0,
                       endColumn := min (endColumn calc0 + n) (cols - 1)\<rparr>
             | _ \<Rightarrow> calc0)
      in if viewportOffset = JStr ''auto'' then
           (if cols = 0 then None
            else
              let center = startColumn calc1 + endColumn calc1 - startColumn calc1;
                  offset = proportionalOffset center cols
              in Some (hook (calc1\<lparr>startRow := max (startColumn calc1 - offset) 0,
                                    endColumn := min (endColumn calc1 + offset) (cols - 1)\<rparr>)))
         else Some (hook calc1))"

section \<open>Calls on the collaborators\<close>

text \<open>
  The hook bus, the selection, the editors, the grid facade and the DOM helpers are not
  among the sources. A handler's effect on them is the list of calls it makes, in the
  order it makes them; what a handler reads from them is a field of the state it runs in.
  A collaborator is taken not to call back into the two classes while a handler runs:
  during a handler the fields change only where the handler itself assigns them.
\<close>

datatype hook_name =
    beforeOnCellMouseDown | afterOnCellMouseDown
  | beforeOnCellContextMenu | afterOnCellContextMenu
  | beforeOnCellMouseOut | afterOnCellMouseOut
  | beforeOnCellMouseOver | afterOnCellMouseOver
  | beforeOnCellMouseUp | afterOnCellMouseUp
  | beforeKeyDown

text \<open>
  The continuation \<open>prepareEditor\<close> passes to \<open>closeEditor\<close> (lines 336-340), or a
  caller's own callback.
\<close>

datatype callback = PrepareEditorIfSaved | ClientCallback nat

record blockCalculations =
  block_row :: bool
  block_column :: bool
  block_cell :: bool

datatype call =
    RunHooks hook_name
  | Listen
  | HandleMouseEvent "int \<times> int" blockCalculations
  | SelectionFinish
  | ClearTextSelection
  | PreventDefault
  | StopPropagation
  | StopImmediatePropagation
  | WindowFocus
  | DeselectCell
  | DestroyEditor bool bool
  | SelectAll
  | EmptySelectedCells
  | TransformStart int int bool
  | TransformEnd int int
  | SetRangeStart "int \<times> int"
  | SetRangeEnd "int \<times> int"
  | EnableFullEditMode
  | Focus
  | Prepare
  | BeginEditing "string option"
  | FinishEditing bool "bool option" "callback option"
  | InvokeCallback callback bool

text \<open>
  Modelled from the spec: \<open>EditorState\<close> (\<open>editors/_baseEditor\<close> is not among the
  sources), the enum \<open>{CLOSED, OPEN, WAITING}\<close> of the data model.
\<close>

datatype EditorState = CLOSED | OPEN | WAITING

text \<open>
  What the two classes read from an editor instance: \<open>isOpened()\<close>,
  \<open>isWaiting()\<close>, \<open>state\<close> and the truthiness of
  \<open>cellProperties.readOnly\<close>.
\<close>

record editor =
  isOpened :: bool
  isWaiting :: bool
  editorState :: EditorState
  readOnly :: bool

section \<open>tableView.js: state, DOM and pointer events\<close>

text \<open>
  A Walkontable instance (the main table or the clone of an overlay) is known by its
  identity.
\<close>

type_synonym surface = nat

text \<open>The private record of lines 46-94, with the fields the handlers use.\<close>

record priv =
  selectionMouseDown :: bool
  mouseDown :: "bool option"
  activeWt :: surface
  wt :: surface

text \<open>
  The document as the handlers see it: \<open>document.documentElement\<close>,
  \<open>instance.rootElement\<close> (\<open>None\<close> when it is null), the holder and the spreader
  of the main table, \<open>document.elementFromPoint\<close>, \<open>getScrollbarWidth()\<close>, and the
  helpers \<open>isInput\<close> and \<open>isChildOf\<close>.
\<close>

record dom =
  documentElement :: node
  rootElement :: "node option"
  holder :: node
  spreader :: node
  elementFromPoint :: "int \<Rightarrow> int \<Rightarrow> node option"
  getScrollbarWidth :: int
  isInput :: "node \<Rightarrow> bool"
  isChildOf :: "node \<Rightarrow> node \<Rightarrow> bool"

text \<open>
  A pointer event. \<open>ancestors\<close> lists \<open>target.parentNode\<close>, its \<open>parentNode\<close>
  and so on, up to the node whose \<open>parentNode\<close> is null. \<open>event_x\<close> and
  \<open>event_y\<close> are \<open>event.x\<close> and \<open>event.y\<close>, \<open>None\<close> when undefined.
  \<open>immediatePropagationStopped\<close> is what \<open>isImmediatePropagationStopped(event)\<close>
  answers.
\<close>

record mouse_event =
  target :: node
  ancestors :: "node list"
  event_x :: "int option"
  event_y :: "int option"
  clientX :: int
  clientY :: int
  isTargetWebComponent :: bool
  immediatePropagationStopped :: bool

record tv_state =
  tv_priv :: priv
  tv_settings :: settings
  tv_dom :: dom
  getSelectedLast :: "(int \<times> int \<times> int \<times> int) option"
  getActiveEditor :: "editor option"
  isInProgress :: bool
  tv_calls :: "call list"

definition tv_call :: "call \<Rightarrow> tv_state \<Rightarrow> tv_state" where
  "tv_call c s = s\<lparr>tv_calls := tv_calls s @ [c]\<rparr>"

definition set_activeWt :: "surface \<Rightarrow> tv_state \<Rightarrow> tv_state" where
  "set_activeWt w s = s\<lparr>tv_priv := (tv_priv s)\<lparr>activeWt := w\<rparr>\<rparr>"

definition set_mouseDown :: "bool \<Rightarrow> tv_state \<Rightarrow> tv_state" where
  "set_mouseDown b s = s\<lparr>tv_priv := (tv_priv s)\<lparr>mouseDown := Some b\<rparr>\<rparr>"

definition set_selectionMouseDown :: "bool \<Rightarrow> tv_state \<Rightarrow> tv_state" where
  "set_selectionMouseDown b s = s\<lparr>tv_priv := (tv_priv s)\<lparr>selectionMouseDown := b\<rparr>\<rparr>"

subsection \<open>Text-selection permission (lines 509-558)\<close>

definition isSelectedOnlyCell :: "tv_state \<Rightarrow> bool" where
  "isSelectedOnlyCell s =
     (case getSelectedLast s of
        None \<Rightarrow> False
      | Some (row, col, rowEnd, colEnd) \<Rightarrow> row = rowEnd \<and> col = colEnd)"

definition isCellEdited :: "tv_state \<Rightarrow> bool" where
  "isCellEdited s =
     (case getActiveEditor s of None \<Rightarrow> False | Some activeEditor \<Rightarrow> isOpened activeEditor)"

definition isTextSelectionAllowed :: "tv_state \<Rightarrow> node \<Rightarrow> bool" where
  "isTextSelectionAllowed s el =
     (if isInput (tv_dom s) el then True
      else
        let isChildOfTableBody = isChildOf (tv_dom s) el (spreader (tv_dom s)) in
        if fragmentSelection (tv_settings s) = JBool True \<and> isChildOfTableBody then True
        else if fragmentSelection (tv_settings s) = JStr ''cell'' \<and> isSelectedOnlyCell s
                \<and> isChildOfTableBody then True
        else if \<not> truthy (fragmentSelection (tv_settings s)) \<and> isCellEdited s
                \<and> isSelectedOnlyCell s then True
        else False)"

subsection \<open>Listeners on the root element (lines 141-162)\<close>

definition rootElement_mousedown :: "mouse_event \<Rightarrow> tv_state \<Rightarrow> tv_state" where
  "rootElement_mousedown event s =
     (let s1 = set_selectionMouseDown True s in
      if \<not> isTextSelectionAllowed s1 (target event)
      then tv_call WindowFocus (tv_call PreventDefault (tv_call ClearTextSelection s1))
      else s1)"

definition rootElement_mouseup :: "tv_state \<Rightarrow> tv_state" where
  "rootElement_mouseup s = set_selectionMouseDown False s"

definition rootElement_mousemove :: "mouse_event \<Rightarrow> tv_state \<Rightarrow> tv_state" where
  "rootElement_mousemove event s =
     (if selectionMouseDown (tv_priv s) \<and> \<not> isTextSelectionAllowed s (target event)
      then
        let s1 = (if truthy (fragmentSelection (tv_settings s))
                  then tv_call ClearTextSelection s else s)
        in tv_call PreventDefault s1
      else s)"

subsection \<open>The document-level mousedown listener (lines 198-243)\<close>

text \<open>\<open>a || b\<close> on a coordinate that may be undefined.\<close>

definition coordinate_or :: "int option \<Rightarrow> int \<Rightarrow> int" where
  "coordinate_or a b = (case a of None \<Rightarrow> b | Some v \<Rightarrow> if v \<noteq> 0 then v else b)"

text \<open>
  The loop of lines 217-230 over \<open>next\<close>, \<open>next.parentNode\<close>, ...: the list holds the
  nodes still to visit, and the empty list is \<open>next === null\<close>. The result is
  \<open>True\<close> when the loop is left with the click still unclassified (the document root
  was reached, or the \<open>break\<close> of line 220), \<open>False\<close> when the listener returns
  from inside the loop.
\<close>

fun leavesLoop :: "dom \<Rightarrow> bool \<Rightarrow> node list \<Rightarrow> bool" where
  "leavesLoop d webComponent [] = webComponent"
| "leavesLoop d webComponent (next # rest) =
     (if next = documentElement d then True
      else if rootElement d = Some next then False
      else leavesLoop d webComponent rest)"

text \<open>Lines 233-242: the policy applied to an outside click.\<close>

definition applyOutsideClick :: "node \<Rightarrow> tv_state \<Rightarrow> tv_state" where
  "applyOutsideClick originalTarget s =
     (let deselects =
            (case outsideClickDeselects (tv_settings s) of
               DeselectsFunction f \<Rightarrow> f originalTarget
             | DeselectsValue v \<Rightarrow> v)
      in if truthy deselects then tv_call DeselectCell s
         else tv_call (DestroyEditor False False) s)"

definition document_mousedown :: "mouse_event \<Rightarrow> tv_state \<Rightarrow> tv_state" where
  "document_mousedown event s =
     (let originalTarget = target event;
          eventX = coordinate_or (event_x event) (clientX event);
          eventY = coordinate_or (event_y event) (clientY event);
          d = tv_dom s
      in if mouseDown (tv_priv s) = Some True \<or> rootElement d = None then s
         else if target event = holder d then
           (let scrollbarWidth = getScrollbarWidth d in
            if elementFromPoint d (eventX + scrollbarWidth) eventY \<noteq> Some (holder d)
               \<or> elementFromPoint d eventX (eventY + scrollbarWidth) \<noteq> Some (holder d)
            then s
            else applyOutsideClick originalTarget s)
         else if leavesLoop d (isTargetWebComponent event) (target event # ancestors event)
           then applyOutsideClick originalTarget s
         else s)"

subsection \<open>The cell pointer handlers given to Walkontable (lines 317-405)\<close>

text \<open>
  The listeners registered on the hook bus. A listener receives the event (and, for the
  two hooks that pass it, the \<open>blockCalculations\<close> record), may change them, and
  either returns or throws. The handlers have no \<open>try\<close>: a listener's exception
  leaves the handler at once.
\<close>

datatype js_error = ListenerError

record listeners =
  onEvent :: "hook_name \<Rightarrow> mouse_event \<Rightarrow> js_error + mouse_event"
  onEventWithController ::
    "hook_name \<Rightarrow> mouse_event \<Rightarrow> blockCalculations \<Rightarrow> js_error + mouse_event \<times> blockCalculations"

text \<open>How a handler ends, with the state it leaves.\<close>

datatype exit = Returned tv_state | Thrown js_error tv_state

fun exit_state :: "exit \<Rightarrow> tv_state" where
  "exit_state (Returned s) = s"
| "exit_state (Thrown e s) = s"

definition noBlock :: blockCalculations where
  "noBlock = \<lparr>block_row = False, block_column = False, block_cell = False\<rparr>"

definition onCellMouseDown ::
  "listeners \<Rightarrow> mouse_event \<Rightarrow> int \<times> int \<Rightarrow> surface \<Rightarrow> tv_state \<Rightarrow> exit" where
  "onCellMouseDown L event coords w s =
     (let s1 = tv_call (RunHooks beforeOnCellMouseDown)
                 (set_mouseDown True (set_activeWt w (tv_call Listen s)))
      in case onEventWithController L beforeOnCellMouseDown event noBlock of
           Inl e \<Rightarrow> Thrown e s1
         | Inr (event1, controller) \<Rightarrow>
             if immediatePropagationStopped event1 then Returned s1
             else
               let s2 = tv_call (RunHooks afterOnCellMouseDown)
                          (tv_call (HandleMouseEvent coords controller) s1)
               in (case onEvent L afterOnCellMouseDown event1 of
                    Inl e \<Rightarrow> Thrown e s2
                  | Inr event2 \<Rightarrow> Returned (set_activeWt (wt (tv_priv s2)) s2)))"

definition onCellContextMenu ::
  "listeners \<Rightarrow> mouse_event \<Rightarrow> int \<times> int \<Rightarrow> surface \<Rightarrow> tv_state \<Rightarrow> exit" where
  "onCellContextMenu L event coords w s =
     (let s0 = set_mouseDown False (set_activeWt w s);
          s1 = tv_call (RunHooks beforeOnCellContextMenu)
                 (if isInProgress s0 then tv_call SelectionFinish s0 else s0)
      in case onEvent L beforeOnCellContextMenu event of
           Inl e \<Rightarrow> Thrown e s1
         | Inr event1 \<Rightarrow>
             if immediatePropagationStopped event1 then Returned s1
             else
               let s2 = tv_call (RunHooks afterOnCellContextMenu) s1
               in (case onEvent L afterOnCellContextMenu event1 of
                    Inl e \<Rightarrow> Thrown e s2
                  | Inr event2 \<Rightarrow> Returned (set_activeWt (wt (tv_priv s2)) s2)))"

definition onCellMouseOut ::
  "listeners \<Rightarrow> mouse_event \<Rightarrow> int \<times> int \<Rightarrow> surface \<Rightarrow> tv_state \<Rightarrow> exit" where
  "onCellMouseOut L event coords w s =
     (let s1 = tv_call (RunHooks beforeOnCellMouseOut) (set_activeWt w s)
      in case onEvent L beforeOnCellMouseOut event of
           Inl e \<Rightarrow> Thrown e s1
         | Inr event1 \<Rightarrow>
             if immediatePropagationStopped event1 then Returned s1
             else
               let s2 = tv_call (RunHooks afterOnCellMouseOut) s1
               in (case onEvent L afterOnCellMouseOut event1 of
                    Inl e \<Rightarrow> Thrown e s2
                  | Inr event2 \<Rightarrow> Returned (set_activeWt (wt (tv_priv s2)) s2)))"

definition onCellMouseOver ::
  "listeners \<Rightarrow> mouse_event \<Rightarrow> int \<times> int \<Rightarrow> surface \<Rightarrow> tv_state \<Rightarrow> exit" where
  "onCellMouseOver L event coords w s =
     (let s1 = tv_call (RunHooks beforeOnCellMouseOver) (set_activeWt w s)
      in case onEventWithController L beforeOnCellMouseOver event noBlock of
           Inl e \<Rightarrow> Thrown e s1
         | Inr (event1, controller) \<Rightarrow>
             if immediatePropagationStopped event1 then Returned s1
             else
               let s2 = tv_call (RunHooks afterOnCellMouseOver)
                          (if mouseDown (tv_priv s1) = Some True
                           then tv_call (HandleMouseEvent coords controller) s1 else s1)
               in (case onEvent L afterOnCellMouseOver event1 of
                    Inl e \<Rightarrow> Thrown e s2
                  | Inr event2 \<Rightarrow> Returned (set_activeWt (wt (tv_priv s2)) s2)))"

definition onCellMouseUp ::
  "listeners \<Rightarrow> mouse_event \<Rightarrow> int \<times> int \<Rightarrow> surface \<Rightarrow> tv_state \<Rightarrow> exit" where
  "onCellMouseUp L event coords w s =
     (let s1 = tv_call (RunHooks beforeOnCellMouseUp) (set_activeWt w s)
      in case onEvent L beforeOnCellMouseUp event of
           Inl e \<Rightarrow> Thrown e s1
         | Inr event1 \<Rightarrow>
             let s2 = tv_call (RunHooks afterOnCellMouseUp) s1
             in (case onEvent L afterOnCellMouseUp event1 of
                  Inl e \<Rightarrow> Thrown e s2
                | Inr event2 \<Rightarrow> Returned (set_activeWt (wt (tv_priv s2)) s2)))"

section \<open>editorManager.js\<close>

text \<open>
  \<open>helpers/unicode\<close> is not among the sources. A key code is known by the entry of
  \<open>KEY_CODES\<close> it equals, \<open>KEY_229\<close> is the literal 229 of line 93, and any other
  code is \<open>OTHER_KEY\<close>; \<open>isMetaKey\<close> and \<open>isCtrlMetaKey\<close> are parameters.
\<close>

datatype key =
    KEY_A | ARROW_UP | ARROW_DOWN | ARROW_RIGHT | ARROW_LEFT | TAB | BACKSPACE | DELETE
  | F2 | ENTER | ESCAPE | HOME | END | PAGE_UP | PAGE_DOWN | KEY_229 | OTHER_KEY nat

record helpers =
  isMetaKey :: "key \<Rightarrow> bool"
  isCtrlMetaKey :: "key \<Rightarrow> bool"

text \<open>
  A keyboard event; \<open>keyStopped\<close> is what \<open>isImmediatePropagationStopped(event)\<close>
  answers.
\<close>

record key_event =
  keyCode :: key
  ctrlKey :: bool
  metaKey :: bool
  altKey :: bool
  shiftKey :: bool
  keyStopped :: bool

text \<open>\<open>enterMoves\<close> and \<open>tabMoves\<close>: an object \<open>{row, col}\<close> or a function of the event.\<close>

datatype moves_setting =
    MovesFunction "key_event \<Rightarrow> int \<times> int"
  | MovesObject "int \<times> int"

text \<open>
  The manager's own fields (\<open>destroyed\<close>, \<open>lock\<close>, \<open>activeEditor\<close>,
  \<open>priv.lastKeyCode\<close>), then what it reads from the grid and the selection:
  \<open>instance.isListening()\<close>, \<open>selection.isSelected()\<close>, three settings,
  \<open>selection.selectedRange.current().from\<close> as (row, col), the three counts, and
  \<open>cellEditor\<close>, the editor instance \<open>getEditorInstance\<close> yields for the
  highlighted cell (\<open>None\<close> when the cell has no editor class).
\<close>

record em_state =
  destroyed :: bool
  lock :: bool
  activeEditor :: "editor option"
  lastKeyCode :: "key option"
  isListening :: bool
  isSelected :: bool
  enterMoves :: moves_setting
  tabMoves :: moves_setting
  enterBeginsEditing :: bool
  rangeFrom :: "int \<times> int"
  countRows :: int
  countCols :: int
  countVisibleRows :: int
  cellEditor :: "editor option"
  em_calls :: "call list"

definition em_call :: "call \<Rightarrow> em_state \<Rightarrow> em_state" where
  "em_call c s = s\<lparr>em_calls := em_calls s @ [c]\<rparr>"

definition resolveMoves :: "moves_setting \<Rightarrow> key_event \<Rightarrow> int \<times> int" where
  "resolveMoves m event = (case m of MovesFunction f \<Rightarrow> f event | MovesObject v \<Rightarrow> v)"

text \<open>
  Lines 40-50. The source applies a function-valued \<open>enterMoves\<close> to the global
  \<open>event\<close>, the event being dispatched.
\<close>

definition moveSelectionAfterEnter :: "key_event \<Rightarrow> bool \<Rightarrow> em_state \<Rightarrow> em_state" where
  "moveSelectionAfterEnter event shift s =
     (let (r, c) = resolveMoves (enterMoves s) event
      in if shift then em_call (TransformStart (- r) (- c) False) s
         else em_call (TransformStart r c True) s)"

definition moveSelectionUp :: "bool \<Rightarrow> em_state \<Rightarrow> em_state" where
  "moveSelectionUp shift s =
     (if shift then em_call (TransformEnd (- 1) 0) s
      else em_call (TransformStart (- 1) 0 False) s)"

definition moveSelectionDown :: "bool \<Rightarrow> em_state \<Rightarrow> em_state" where
  "moveSelectionDown shift s =
     (if shift then em_call (TransformEnd 1 0) s
      else em_call (TransformStart 1 0 False) s)"

definition moveSelectionRight :: "bool \<Rightarrow> em_state \<Rightarrow> em_state" where
  "moveSelectionRight shift s =
     (if shift then em_call (TransformEnd 0 1) s
      else em_call (TransformStart 0 1 False) s)"

definition moveSelectionLeft :: "bool \<Rightarrow> em_state \<Rightarrow> em_state" where
  "moveSelectionLeft shift s =
     (if shift then em_call (TransformEnd 0 (- 1)) s
      else em_call (TransformStart 0 (- 1) False) s)"

definition lockEditor :: "em_state \<Rightarrow> em_state" where
  "lockEditor s = s\<lparr>lock := True\<rparr>"

definition unlockEditor :: "em_state \<Rightarrow> em_state" where
  "unlockEditor s = s\<lparr>lock := False\<rparr>"

definition isEditorOpened :: "em_state \<Rightarrow> bool" where
  "isEditorOpened s = (case activeEditor s of None \<Rightarrow> False | Some e \<Rightarrow> isOpened e)"

text \<open>
  Lines 407-414. \<open>ctrlDown\<close> and \<open>callback\<close> are \<open>None\<close> when the caller
  leaves them out.
\<close>

definition closeEditor ::
  "bool \<Rightarrow> bool option \<Rightarrow> callback option \<Rightarrow> em_state \<Rightarrow> em_state" where
  "closeEditor restoreOriginalValue ctrlDown cb s =
     (case activeEditor s of
        Some e \<Rightarrow> em_call (FinishEditing restoreOriginalValue ctrlDown cb) s
      | None \<Rightarrow>
          (case cb of
             Some f \<Rightarrow> em_call (InvokeCallback f False) s
           | None \<Rightarrow> s))"

definition closeEditorAndSaveChanges :: "bool option \<Rightarrow> em_state \<Rightarrow> em_state" where
  "closeEditorAndSaveChanges ctrlDown s = closeEditor False ctrlDown None s"

definition closeEditorAndRestoreOriginalValue :: "bool option \<Rightarrow> em_state \<Rightarrow> em_state" where
  "closeEditorAndRestoreOriginalValue ctrlDown s = closeEditor True ctrlDown None s"

definition destroyEditor :: "bool \<Rightarrow> em_state \<Rightarrow> em_state" where
  "destroyEditor revertOriginal s =
     (if \<not> lock s then closeEditor revertOriginal None None s else s)"

text \<open>
  Lines 330-360. The reads of lines 345-351 (the highlighted cell, its value, its meta
  data and its editor class) are summed up in \<open>cellEditor\<close>.
\<close>

definition prepareEditor :: "em_state \<Rightarrow> em_state" where
  "prepareEditor s =
     (if lock s then s
      else if (case activeEditor s of None \<Rightarrow> False | Some e \<Rightarrow> isWaiting e)
        then closeEditor False (Some False) (Some PrepareEditorIfSaved) s
      else
        (case cellEditor s of
           Some e \<Rightarrow> em_call Prepare (s\<lparr>activeEditor := Some e\<rparr>)
         | None \<Rightarrow> s\<lparr>activeEditor := None\<rparr>))"

text \<open>
  Lines 381-396. \<open>event\<close> is \<open>None\<close> when the caller passes no event.
\<close>

definition openEditor :: "string option \<Rightarrow> key_event option \<Rightarrow> em_state \<Rightarrow> em_state" where
  "openEditor newInitialValue event s =
     (case activeEditor s of
        None \<Rightarrow> s
      | Some e \<Rightarrow>
          if readOnly e then
            (case event of
               Some ev \<Rightarrow> if keyCode ev = ENTER then moveSelectionAfterEnter ev False s else s
             | None \<Rightarrow> s)
          else em_call (BeginEditing newInitialValue) s)"

text \<open>
  \<open>this.isEditorOpened() && !this.activeEditor.isWaiting()\<close>, the test of lines 128,
  138, 149 and 160.
\<close>

definition openedAndNotWaiting :: "em_state \<Rightarrow> bool" where
  "openedAndNotWaiting s =
     (case activeEditor s of None \<Rightarrow> False | Some e \<Rightarrow> isOpened e \<and> \<not> isWaiting e)"

definition enableFullEditMode :: "em_state \<Rightarrow> em_state" where
  "enableFullEditMode s =
     (case activeEditor s of None \<Rightarrow> s | Some e \<Rightarrow> em_call EnableFullEditMode s)"

definition preventDefault :: "em_state \<Rightarrow> em_state" where
  "preventDefault s = em_call PreventDefault s"

definition stopPropagation :: "em_state \<Rightarrow> em_state" where
  "stopPropagation s = em_call StopPropagation s"

text \<open>The \<open>switch\<close> of lines 114-265.\<close>

definition keySwitch :: "key_event \<Rightarrow> bool \<Rightarrow> em_state \<Rightarrow> em_state" where
  "keySwitch event ctrlDown s =
     (let rangeModifier = (if shiftKey event then SetRangeEnd else SetRangeStart);
          closed = (if openedAndNotWaiting s
                    then closeEditorAndSaveChanges (Some ctrlDown) s else s)
      in case keyCode event of
           KEY_A \<Rightarrow>
             if \<not> isEditorOpened s \<and> ctrlDown
             then stopPropagation (preventDefault (em_call SelectAll s))
             else s
         | ARROW_UP \<Rightarrow>
             stopPropagation (preventDefault (moveSelectionUp (shiftKey event) closed))
         | ARROW_DOWN \<Rightarrow>
             stopPropagation (preventDefault (moveSelectionDown (shiftKey event) closed))
         | ARROW_RIGHT \<Rightarrow>
             stopPropagation (preventDefault (moveSelectionRight (shiftKey event) closed))
         | ARROW_LEFT \<Rightarrow>
             stopPropagation (preventDefault (moveSelectionLeft (shiftKey event) closed))
         | TAB \<Rightarrow>
             (let (r, c) = resolveMoves (tabMoves s) event
              in stopPropagation (preventDefault
                   (if shiftKey event then em_call (TransformStart (- r) (- c) False) s
                    else em_call (TransformStart r c True) s)))
         | BACKSPACE \<Rightarrow> preventDefault (prepareEditor (em_call EmptySelectedCells s))
         | DELETE \<Rightarrow> preventDefault (prepareEditor (em_call EmptySelectedCells s))
         | F2 \<Rightarrow> preventDefault (openEditor None (Some event) (enableFullEditMode s))
         | ENTER \<Rightarrow>
             em_call StopImmediatePropagation (preventDefault
               (if isEditorOpened s then
                  moveSelectionAfterEnter event (shiftKey event)
                    (if (case activeEditor s of
                           None \<Rightarrow> False | Some e \<Rightarrow> editorState e \<noteq> WAITING)
                     then closeEditorAndSaveChanges (Some ctrlDown) s else s)
                else if enterBeginsEditing s then
                  openEditor None (Some event) (enableFullEditMode s)
                else moveSelectionAfterEnter event (shiftKey event) s))
         | ESCAPE \<Rightarrow>
             preventDefault
               (if isEditorOpened s
                then em_call Focus (closeEditorAndRestoreOriginalValue (Some ctrlDown) s)
                else s)
         | HOME \<Rightarrow>
             stopPropagation (preventDefault
               (if ctrlKey event \<or> metaKey event
                then em_call (rangeModifier (0, snd (rangeFrom s))) s
                else em_call (rangeModifier (fst (rangeFrom s), 0)) s))
         | END \<Rightarrow>
             stopPropagation (preventDefault
               (if ctrlKey event \<or> metaKey event
                then em_call (rangeModifier (countRows s - 1, snd (rangeFrom s))) s
                else em_call (rangeModifier (fst (rangeFrom s), countCols s - 1)) s))
         | PAGE_UP \<Rightarrow>
             stopPropagation (preventDefault
               (em_call (TransformStart (- countVisibleRows s) 0 False) s))
         | PAGE_DOWN \<Rightarrow>
             stopPropagation (preventDefault
               (em_call (TransformStart (countVisibleRows s) 0 False) s))
         | KEY_229 \<Rightarrow> s
         | OTHER_KEY n \<Rightarrow> s)"

text \<open>
  \<open>onKeyDown\<close> (lines 85-266). \<open>hook\<close> stands for the listeners of
  \<open>beforeKeyDown\<close>, which receive the event first and may change it.
\<close>

definition onKeyDown ::
  "helpers \<Rightarrow> (key_event \<Rightarrow> key_event) \<Rightarrow> key_event \<Rightarrow> em_state \<Rightarrow> em_state" where
  "onKeyDown H hook event0 s =
     (if \<not> isListening s then s
      else
        let s1 = em_call (RunHooks beforeKeyDown) s;
            event = hook event0
        in if destroyed s1 \<or> keyCode event = KEY_229 then s1
           else if keyStopped event then s1
           else
             let s2 = s1\<lparr>lastKeyCode := Some (keyCode event)\<rparr> in
             if \<not> isSelected s2 then s2
             else
               let ctrlDown = ((ctrlKey event \<or> metaKey event) \<and> \<not> altKey event) in
               if (case activeEditor s2 of None \<Rightarrow> False | Some e \<Rightarrow> \<not> isWaiting e)
                  \<and> \<not> isMetaKey H (keyCode event) \<and> \<not> isCtrlMetaKey H (keyCode event)
                  \<and> \<not> ctrlDown \<and> \<not> isEditorOpened s2
               then openEditor (Some []) (Some event) s2
               else keySwitch event ctrlDown s2)"

section \<open>Concrete inputs\<close>

definition settings0 :: settings where
  "settings0 =
     \<lparr>fragmentSelection = JBool False,
      outsideClickDeselects = DeselectsValue (JBool True),
      viewportRowRenderingOffset = JStr ''auto'',
      viewportColumnRenderingOffset = JStr ''auto'',
      fixedRowsTop = JNum 0,
      fixedColumnsLeft = JNum 0\<rparr>"

definition calc0 :: calc where
  "calc0 = \<lparr>startRow = 50, endRow = 60, startColumn = 10, endColumn = 20\<rparr>"

text \<open>
  A document whose root is node 0, with the widget's root element 2, the holder 3 and
  the spreader 4 below it; nodes 5 and 6 are cells of the table body, node 9 is an input
  and node 7 lies outside the widget.
\<close>

definition dom0 :: dom where
  "dom0 =
     \<lparr>documentElement = 0,
      rootElement = Some 2,
      holder = 3,
      spreader = 4,
      elementFromPoint = (\<lambda>x y. Some 3),
      getScrollbarWidth = 15,
      isInput = (\<lambda>n. n = 9),
      isChildOf = (\<lambda>n p. p = 4 \<and> (n = 5 \<or> n = 6))\<rparr>"

definition view0 :: tv_state where
  "view0 =
     \<lparr>tv_priv = \<lparr>selectionMouseDown = False, mouseDown = None, activeWt = 0, wt = 0\<rparr>,
      tv_settings = settings0,
      tv_dom = dom0,
      getSelectedLast = Some (2, 2, 2, 2),
      getActiveEditor = None,
      isInProgress = False,
      tv_calls = []\<rparr>"

definition click0 :: mouse_event where
  "click0 =
     \<lparr>target = 5, ancestors = [4, 3, 2, 1, 0], event_x = None, event_y = None,
      clientX = 40, clientY = 30, isTargetWebComponent = False,
      immediatePropagationStopped = False\<rparr>"

definition outside0 :: mouse_event where
  "outside0 = click0\<lparr>target := 7, ancestors := [1, 0]\<rparr>"

definition drag0 :: tv_state where
  "drag0 = view0\<lparr>tv_priv := (tv_priv view0)\<lparr>selectionMouseDown := True\<rparr>\<rparr>"

definition cellOnly0 :: tv_state where
  "cellOnly0 = view0\<lparr>tv_settings := settings0\<lparr>fragmentSelection := JStr ''cell''\<rparr>\<rparr>"

text \<open>Listeners that stop immediate propagation of every event they receive.\<close>

definition stoppingListeners :: listeners where
  "stoppingListeners =
     \<lparr>onEvent = (\<lambda>h e. Inr (e\<lparr>immediatePropagationStopped := True\<rparr>)),
      onEventWithController = (\<lambda>h e b. Inr (e\<lparr>immediatePropagationStopped := True\<rparr>, b))\<rparr>"

definition editor0 :: editor where
  "editor0 = \<lparr>isOpened = False, isWaiting = False, editorState = CLOSED, readOnly = False\<rparr>"

definition manager0 :: em_state where
  "manager0 =
     \<lparr>destroyed = False, lock = False, activeEditor = Some editor0, lastKeyCode = None,
      isListening = True, isSelected = True,
      enterMoves = MovesObject (1, 0), tabMoves = MovesObject (0, 1),
      enterBeginsEditing = True,
      rangeFrom = (2, 2), countRows = 10, countCols = 5, countVisibleRows = 4,
      cellEditor = Some editor0, em_calls = []\<rparr>"

definition opened0 :: em_state where
  "opened0 =
     manager0\<lparr>activeEditor := Some (editor0\<lparr>isOpened := True, editorState := OPEN\<rparr>)\<rparr>"

definition readOnly0 :: em_state where
  "readOnly0 = manager0\<lparr>activeEditor := Some (editor0\<lparr>readOnly := True\<rparr>)\<rparr>"

text \<open>
  Helpers for which every named key but \<open>A\<close> is a meta key and code 17 is the only
  ctrl/meta key code.
\<close>

definition helpers0 :: helpers where
  "helpers0 =
     \<lparr>isMetaKey =
        (\<lambda>k. case k of OTHER_KEY n \<Rightarrow> False | KEY_A \<Rightarrow> False | KEY_229 \<Rightarrow> False
              | _ \<Rightarrow> True),
      isCtrlMetaKey = (\<lambda>k. k = OTHER_KEY 17)\<rparr>"

definition keydown0 :: key_event where
  "keydown0 =
     \<lparr>keyCode = ARROW_DOWN, ctrlKey = False, metaKey = False, altKey = False,
      shiftKey = False, keyStopped = False\<rparr>"

definition keydownX :: key_event where
  "keydownX = keydown0\<lparr>keyCode := OTHER_KEY 88\<rparr>"

section \<open>The active surface across the pointer handlers\<close>

lemmas tv_simps = tv_call_def set_activeWt_def set_mouseDown_def set_selectionMouseDown_def

lemma onCellMouseDown_completes:
  assumes "onEventWithController L beforeOnCellMouseDown event noBlock = Inr (event1, b)"
    and "\<not> immediatePropagationStopped event1"
    and "onEvent L afterOnCellMouseDown event1 = Inr event2"
  shows "activeWt (tv_priv (exit_state (onCellMouseDown L event coords w s))) = wt (tv_priv s)"
  using assms by (simp add: onCellMouseDown_def Let_def tv_simps)

lemma onCellMouseDown_stopped:
  assumes "onEventWithController L beforeOnCellMouseDown event noBlock = Inr (event1, b)"
    and "immediatePropagationStopped event1"
  shows "activeWt (tv_priv (exit_state (onCellMouseDown L event coords w s))) = w"
  using assms by (simp add: onCellMouseDown_def Let_def tv_simps)

lemma onCellMouseOver_stopped:
  assumes "onEventWithController L beforeOnCellMouseOver event noBlock = Inr (event1, b)"
    and "immediatePropagationStopped event1"
  shows "activeWt (tv_priv (exit_state (onCellMouseOver L event coords w s))) = w"
  using assms by (simp add: onCellMouseOver_def Let_def tv_simps)

lemma onCellMouseOut_stopped:
  assumes "onEvent L beforeOnCellMouseOut event = Inr event1"
    and "immediatePropagationStopped event1"
  shows "activeWt (tv_priv (exit_state (onCellMouseOut L event coords w s))) = w"
  using assms by (simp add: onCellMouseOut_def Let_def tv_simps)

lemma onCellContextMenu_stopped:
  assumes "onEvent L beforeOnCellContextMenu event = Inr event1"
    and "immediatePropagationStopped event1"
  shows "activeWt (tv_priv (exit_state (onCellContextMenu L event coords w s))) = w"
  using assms by (simp add: onCellContextMenu_def Let_def tv_simps)

lemma onCellMouseUp_thrown:
  assumes "onEvent L beforeOnCellMouseUp event = Inl e"
  shows "onCellMouseUp L event coords w s =
           Thrown e (tv_call (RunHooks beforeOnCellMouseUp) (set_activeWt w s))"
  using assms by (simp add: onCellMouseUp_def Let_def)

text \<open>
  C1. The claim: every cell pointer handler leaves the active surface equal to the main
  surface on every exit path, the early return after a stopped "before" hook included.
  The code, for a mouse-down raised by overlay 1 on a view whose main surface is 0, with
  a \<open>beforeOnCellMouseDown\<close> listener that stops immediate propagation: the handler
  returns with the active surface still 1.
\<close>

theorem onCellMouseDown_stopped_keeps_overlay:
  "onCellMouseDown stoppingListeners click0 (2, 2) 1 view0 =
     Returned (view0\<lparr>tv_priv := \<lparr>selectionMouseDown = False, mouseDown = Some True,
                                  activeWt = 1, wt = 0\<rparr>,
                     tv_calls := [Listen, RunHooks beforeOnCellMouseDown]\<rparr>)"
  by (simp add: onCellMouseDown_def stoppingListeners_def view0_def tv_simps)

section \<open>The viewport overrides\<close>

lemma proportionalOffset_div: "proportionalOffset c n = - ((- (c * 12)) div n)"
  unfolding proportionalOffset_def
  by (metis (no_types, opaque_lifting) ceiling_divide_eq_div of_int_mult of_int_numeral
      times_divide_eq_left)

lemma viewportRow_auto:
  assumes "viewportRowRenderingOffset st = JStr ''auto''" "\<not> truthy (fixedRowsTop st)"
    and "rows \<noteq> 0"
  shows "viewportRowCalculatorOverride st rows hook c =
     Some (hook (c\<lparr>startRow := max (startRow c - proportionalOffset (endRow c) rows) 0,
                    endRow := min (endRow c + proportionalOffset (endRow c) rows) (rows - 1)\<rparr>))"
  using assms by (simp add: viewportRowCalculatorOverride_def Let_def)

lemma viewportColumn_auto:
  assumes "viewportColumnRenderingOffset st = JStr ''auto''" "\<not> truthy (fixedColumnsLeft st)"
    and "cols \<noteq> 0"
  shows "viewportColumnCalculatorOverride st cols hook c =
     Some (hook (c\<lparr>startRow := max (startColumn c - proportionalOffset (endColumn c) cols) 0,
                    endColumn := min (endColumn c + proportionalOffset (endColumn c) cols) (cols - 1)\<rparr>))"
  using assms by (simp add: viewportColumnCalculatorOverride_def Let_def)

text \<open>
  C2. The claim: with \<open>'auto'\<close> and no fixed left pane the column override changes
  \<open>startColumn\<close> and \<open>endColumn\<close> only and leaves the row fields alone. The code at 100
  columns, on a calculator with rows 50..60 and columns 10..20 (offset
  \<open>ceil(20 / 100 * 12) = 3\<close>): \<open>startRow\<close> becomes 7, \<open>startColumn\<close> stays 10, and
  \<open>endColumn\<close> becomes 23.
\<close>

theorem viewport_column_auto_assigns_startRow:
  "viewportColumnCalculatorOverride settings0 100 id calc0 =
     Some \<lparr>startRow = 7, endRow = 60, startColumn = 10, endColumn = 23\<rparr>"
  by (simp add: viewportColumnCalculatorOverride_def settings0_def calc0_def
      proportionalOffset_div)

text \<open>
  C3. On either axis a numeric offset \<open>n\<close> gives \<open>start = max (start - n) 0\<close> and
  \<open>end = min (end + n) (total - 1)\<close>, the calculator then going to the listeners of the
  "after override" hook; with \<open>'auto'\<close> and a truthy fixed-pane count on that axis the
  same rule runs with 10. For a total of 100, a window 10..20 and \<open>n = 5\<close> the result is
  5..25.
\<close>

theorem viewport_override_fixed_offset:
  "viewportRowCalculatorOverride (st\<lparr>viewportRowRenderingOffset := JNum n\<rparr>) rows hook c =
     Some (hook (c\<lparr>startRow := max (startRow c - n) 0,
                    endRow := min (endRow c + n) (rows - 1)\<rparr>))
   \<and> viewportColumnCalculatorOverride (st\<lparr>viewportColumnRenderingOffset := JNum n\<rparr>) cols hook c =
     Some (hook (c\<lparr>startColumn := max (startColumn c - n) 0,
                    endColumn := min (endColumn c + n) (cols - 1)\<rparr>))
   \<and> (truthy (fixedRowsTop st) \<longrightarrow>
        viewportRowCalculatorOverride (st\<lparr>viewportRowRenderingOffset := JStr ''auto''\<rparr>)
          rows hook c =
          Some (hook (c\<lparr>startRow := max (startRow c - 10) 0,
                         endRow := min (endRow c + 10) (rows - 1)\<rparr>)))
   \<and> (truthy (fixedColumnsLeft st) \<longrightarrow>
        viewportColumnCalculatorOverride (st\<lparr>viewportColumnRenderingOffset := JStr ''auto''\<rparr>)
          cols hook c =
          Some (hook (c\<lparr>startColumn := max (startColumn c - 10) 0,
                         endColumn := min (endColumn c + 10) (cols - 1)\<rparr>)))
   \<and> viewportRowCalculatorOverride (st\<lparr>viewportRowRenderingOffset := JNum 5\<rparr>) 100 id
        \<lparr>startRow = 10, endRow = 20, startColumn = a, endColumn = b\<rparr> =
        Some \<lparr>startRow = 5, endRow = 25, startColumn = a, endColumn = b\<rparr>
   \<and> viewportColumnCalculatorOverride (st\<lparr>viewportColumnRenderingOffset := JNum 5\<rparr>) 100 id
        \<lparr>startRow = a, endRow = b, startColumn = 10, endColumn = 20\<rparr> =
        Some \<lparr>startRow = a, endRow = b, startColumn = 5, endColumn = 25\<rparr>"
  by (simp add: viewportRowCalculatorOverride_def viewportColumnCalculatorOverride_def)

theorem viewport_override_fixed_offset_witness:
  "truthy (fixedRowsTop (settings0\<lparr>fixedRowsTop := JNum 2, fixedColumnsLeft := JNum 1\<rparr>))
   \<and> truthy (fixedColumnsLeft (settings0\<lparr>fixedRowsTop := JNum 2, fixedColumnsLeft := JNum 1\<rparr>))
   \<and> viewportRowCalculatorOverride
        (settings0\<lparr>fixedRowsTop := JNum 2, fixedColumnsLeft := JNum 1\<rparr>) 100 id calc0 =
       Some \<lparr>startRow = 40, endRow = 70, startColumn = 10, endColumn = 20\<rparr>
   \<and> viewportColumnCalculatorOverride
        (settings0\<lparr>fixedRowsTop := JNum 2, fixedColumnsLeft := JNum 1\<rparr>) 100 id calc0 =
       Some \<lparr>startRow = 50, endRow = 60, startColumn = 0, endColumn = 30\<rparr>"
  using viewport_override_fixed_offset
    [where st = "settings0\<lparr>fixedRowsTop := JNum 2, fixedColumnsLeft := JNum 1\<rparr>"
       and rows = 100 and cols = 100 and hook = id and c = calc0]
  by (simp add: settings0_def calc0_def)

section \<open>Text selection\<close>

text \<open>
  C6. \<open>isTextSelectionAllowed\<close> answers true exactly when the target is an input; or
  \<open>fragmentSelection\<close> is \<open>true\<close> and the target is inside the table body; or it is
  \<open>'cell'\<close>, one cell is selected and the target is inside the table body; or it is
  falsy, an editor is open and one cell is selected. So with \<open>'cell'\<close> and a selection
  of more than one cell it answers false for a target that is no input.
\<close>

theorem isTextSelectionAllowed_cases:
  "(isTextSelectionAllowed s el \<longleftrightarrow>
      isInput (tv_dom s) el
      \<or> (fragmentSelection (tv_settings s) = JBool True
          \<and> isChildOf (tv_dom s) el (spreader (tv_dom s)))
      \<or> (fragmentSelection (tv_settings s) = JStr ''cell''
          \<and> (\<exists>r c. getSelectedLast s = Some (r, c, r, c))
          \<and> isChildOf (tv_dom s) el (spreader (tv_dom s)))
      \<or> (\<not> truthy (fragmentSelection (tv_settings s))
          \<and> (\<exists>e. getActiveEditor s = Some e \<and> isOpened e)
          \<and> (\<exists>r c. getSelectedLast s = Some (r, c, r, c))))
   \<and> (fragmentSelection (tv_settings s) = JStr ''cell''
        \<and> getSelectedLast s = Some (r1, c1, r2, c2) \<and> (r1 \<noteq> r2 \<or> c1 \<noteq> c2)
        \<and> \<not> isInput (tv_dom s) el
      \<longrightarrow> \<not> isTextSelectionAllowed s el)"
  by (auto simp add: isTextSelectionAllowed_def isSelectedOnlyCell_def isCellEdited_def Let_def
      split: option.splits)

theorem isTextSelectionAllowed_cases_witness:
  "fragmentSelection (tv_settings (cellOnly0\<lparr>getSelectedLast := Some (1, 1, 2, 3)\<rparr>)) = JStr ''cell''
   \<and> getSelectedLast (cellOnly0\<lparr>getSelectedLast := Some (1, 1, 2, 3)\<rparr>) = Some (1, 1, 2, 3)
   \<and> \<not> isInput (tv_dom (cellOnly0\<lparr>getSelectedLast := Some (1, 1, 2, 3)\<rparr>)) 5
   \<and> \<not> isTextSelectionAllowed (cellOnly0\<lparr>getSelectedLast := Some (1, 1, 2, 3)\<rparr>) 5
   \<and> isTextSelectionAllowed cellOnly0 5"
  using isTextSelectionAllowed_cases
      [where s = "cellOnly0\<lparr>getSelectedLast := Some (1, 1, 2, 3)\<rparr>"
         and el = 5 and ?r1.0 = 1 and ?c1.0 = 1 and ?r2.0 = 2 and ?c2.0 = 3]
    isTextSelectionAllowed_cases [where s = cellOnly0 and el = 5]
  by (simp add: cellOnly0_def view0_def dom0_def)

text \<open>
  C7. The claim: on a drag with the mouse held, a target for which text selection is
  disallowed has the event's default prevented and the document's text selection
  cleared. With \<open>fragmentSelection = false\<close> the listener prevents the default and
  clears nothing.
\<close>

theorem mousemove_disallowed_without_fragmentSelection:
  "selectionMouseDown (tv_priv drag0)
   \<and> \<not> isTextSelectionAllowed drag0 (target click0)
   \<and> tv_calls (rootElement_mousemove click0 drag0) = [PreventDefault]
   \<and> ClearTextSelection \<notin> set (tv_calls (rootElement_mousemove click0 drag0))"
  by (simp add: rootElement_mousemove_def drag0_def view0_def click0_def dom0_def settings0_def
      isTextSelectionAllowed_def isCellEdited_def isSelectedOnlyCell_def tv_simps)

text \<open>
  C7 as amended. On a mouse move with the mouse held over a target for which text
  selection is disallowed, the listener always prevents the event's default, and clears
  the document's text selection first only when \<open>fragmentSelection\<close> is truthy.
\<close>

theorem mousemove_disallowed_drag:
  assumes "selectionMouseDown (tv_priv s)"
    and "\<not> isTextSelectionAllowed s (target event)"
  shows "rootElement_mousemove event s =
     s\<lparr>tv_calls := tv_calls s
          @ (if truthy (fragmentSelection (tv_settings s)) then [ClearTextSelection] else [])
          @ [PreventDefault]\<rparr>"
  using assms by (simp add: rootElement_mousemove_def tv_simps)

theorem mousemove_disallowed_drag_witness:
  "selectionMouseDown
     (tv_priv (rootElement_mousedown click0 (cellOnly0\<lparr>getSelectedLast := None\<rparr>)))
   \<and> \<not> isTextSelectionAllowed
         (rootElement_mousedown click0 (cellOnly0\<lparr>getSelectedLast := None\<rparr>)) (target click0)
   \<and> tv_calls (rootElement_mousemove click0
         (rootElement_mousedown click0 (cellOnly0\<lparr>getSelectedLast := None\<rparr>))) =
       [ClearTextSelection, PreventDefault, WindowFocus, ClearTextSelection, PreventDefault]"
  using mousemove_disallowed_drag
    [where s = "rootElement_mousedown click0 (cellOnly0\<lparr>getSelectedLast := None\<rparr>)"
       and event = click0]
  by (simp add: rootElement_mousedown_def cellOnly0_def view0_def click0_def dom0_def
      settings0_def isTextSelectionAllowed_def isCellEdited_def isSelectedOnlyCell_def tv_simps)

section \<open>Outside clicks\<close>

text \<open>
  C5. A document-level mousedown that the listener does not return from early (no cell
  mousedown is held, the root element exists, and either the target is the holder and
  both probes hit the holder, or the walk up from the target leaves the loop) calls
  \<open>deselectCell()\<close> when \<open>outsideClickDeselects\<close>, a value or a function of the
  original target, is truthy; otherwise it calls \<open>destroyEditor(false, false)\<close>. It
  does nothing else, so in the second case nothing touches the selection.
\<close>

theorem outside_click_policy:
  assumes "mouseDown (tv_priv s) \<noteq> Some True"
    and "rootElement (tv_dom s) \<noteq> None"
    and "if target event = holder (tv_dom s)
         then elementFromPoint (tv_dom s)
                (coordinate_or (event_x event) (clientX event) + getScrollbarWidth (tv_dom s))
                (coordinate_or (event_y event) (clientY event)) = Some (holder (tv_dom s))
              \<and> elementFromPoint (tv_dom s)
                (coordinate_or (event_x event) (clientX event))
                (coordinate_or (event_y event) (clientY event) + getScrollbarWidth (tv_dom s))
                  = Some (holder (tv_dom s))
         else leavesLoop (tv_dom s) (isTargetWebComponent event) (target event # ancestors event)"
  shows "document_mousedown event s =
     (if truthy (case outsideClickDeselects (tv_settings s) of
                   DeselectsFunction f \<Rightarrow> f (target event)
                 | DeselectsValue v \<Rightarrow> v)
      then s\<lparr>tv_calls := tv_calls s @ [DeselectCell]\<rparr>
      else s\<lparr>tv_calls := tv_calls s @ [DestroyEditor False False]\<rparr>)"
proof -
  have "document_mousedown event s = applyOutsideClick (target event) s"
    using assms by (auto simp add: document_mousedown_def Let_def split: if_splits)
  then show ?thesis
    by (simp add: applyOutsideClick_def tv_call_def)
qed

theorem outside_click_policy_witness:
  "mouseDown (tv_priv view0) \<noteq> Some True
   \<and> rootElement (tv_dom view0) \<noteq> None
   \<and> target outside0 \<noteq> holder (tv_dom view0)
   \<and> leavesLoop (tv_dom view0) (isTargetWebComponent outside0)
        (target outside0 # ancestors outside0)
   \<and> document_mousedown outside0 view0 = view0\<lparr>tv_calls := [DeselectCell]\<rparr>
   \<and> document_mousedown outside0
        (view0\<lparr>tv_settings :=
           settings0\<lparr>outsideClickDeselects := DeselectsFunction (\<lambda>n. JBool (n \<noteq> 7))\<rparr>\<rparr>) =
       view0\<lparr>tv_settings :=
               settings0\<lparr>outsideClickDeselects := DeselectsFunction (\<lambda>n. JBool (n \<noteq> 7))\<rparr>,
             tv_calls := [DestroyEditor False False]\<rparr>"
  using outside_click_policy [where s = view0 and event = outside0]
    outside_click_policy
      [where s = "view0\<lparr>tv_settings :=
                     settings0\<lparr>outsideClickDeselects := DeselectsFunction (\<lambda>n. JBool (n \<noteq> 7))\<rparr>\<rparr>"
         and event = outside0]
  by (simp add: view0_def outside0_def click0_def dom0_def settings0_def)

section \<open>Closing and locking the editor\<close>

text \<open>
  C9. Without an active editor \<open>closeEditor\<close> calls the callback with \<open>false\<close> and
  changes nothing else (and does nothing at all when no callback is given); with an
  active editor it calls that editor's \<open>finishEditing\<close> with the same three arguments.
\<close>

theorem closeEditor_cases:
  "(activeEditor s = None \<longrightarrow>
      closeEditor restoreOriginalValue ctrlDown (Some f) s =
        s\<lparr>em_calls := em_calls s @ [InvokeCallback f False]\<rparr>
      \<and> closeEditor restoreOriginalValue ctrlDown None s = s)
   \<and> (activeEditor s = Some e \<longrightarrow>
      closeEditor restoreOriginalValue ctrlDown cb s =
        s\<lparr>em_calls := em_calls s @ [FinishEditing restoreOriginalValue ctrlDown cb]\<rparr>)"
  by (simp add: closeEditor_def em_call_def)

theorem closeEditor_cases_witness:
  "activeEditor (manager0\<lparr>activeEditor := None\<rparr>) = None
   \<and> closeEditor True (Some False) (Some (ClientCallback 1)) (manager0\<lparr>activeEditor := None\<rparr>) =
       manager0\<lparr>activeEditor := None, em_calls := [InvokeCallback (ClientCallback 1) False]\<rparr>
   \<and> closeEditor True (Some False) None (manager0\<lparr>activeEditor := None\<rparr>) =
       manager0\<lparr>activeEditor := None\<rparr>
   \<and> activeEditor manager0 = Some editor0
   \<and> closeEditor True (Some False) (Some (ClientCallback 1)) manager0 =
       manager0\<lparr>em_calls := [FinishEditing True (Some False) (Some (ClientCallback 1))]\<rparr>"
  using closeEditor_cases
      [where s = "manager0\<lparr>activeEditor := None\<rparr>" and restoreOriginalValue = True
         and ctrlDown = "Some False" and f = "ClientCallback 1"]
    closeEditor_cases
      [where s = manager0 and restoreOriginalValue = True and ctrlDown = "Some False"
         and cb = "Some (ClientCallback 1)" and e = editor0]
  by (simp add: manager0_def)

text \<open>
  C8. After \<open>lockEditor()\<close>, \<open>destroyEditor\<close> changes nothing: the active editor is
  the same and no call reaches it. After \<open>unlockEditor()\<close>, \<open>destroyEditor\<close> on a
  manager with an active editor calls that editor's \<open>finishEditing\<close> with the revert
  flag.
\<close>

theorem destroyEditor_lock:
  "destroyEditor revertOriginal (lockEditor s) = lockEditor s
   \<and> activeEditor (destroyEditor revertOriginal (lockEditor s)) = activeEditor s
   \<and> em_calls (destroyEditor revertOriginal (lockEditor s)) = em_calls s
   \<and> (activeEditor s = Some e \<longrightarrow>
        destroyEditor revertOriginal (unlockEditor s) =
          (unlockEditor s)\<lparr>em_calls := em_calls s @ [FinishEditing revertOriginal None None]\<rparr>)"
  by (simp add: destroyEditor_def lockEditor_def unlockEditor_def closeEditor_def em_call_def)

theorem destroyEditor_lock_witness:
  "activeEditor (lockEditor manager0) = Some editor0
   \<and> destroyEditor False (lockEditor manager0) = manager0\<lparr>lock := True\<rparr>
   \<and> destroyEditor False (unlockEditor (lockEditor manager0)) =
       manager0\<lparr>em_calls := [FinishEditing False None None]\<rparr>"
  using destroyEditor_lock [where s = manager0 and revertOriginal = False]
    destroyEditor_lock [where s = "lockEditor manager0" and revertOriginal = False and e = editor0]
  by (simp add: manager0_def lockEditor_def unlockEditor_def)

section \<open>Key presses\<close>

lemmas em_simps = em_call_def preventDefault_def stopPropagation_def
  closeEditorAndSaveChanges_def closeEditor_def isEditorOpened_def openedAndNotWaiting_def

lemma onKeyDown_reaches_switch:
  assumes "isListening s" "\<not> destroyed s" "isSelected s"
    and "keyCode (hook event) \<noteq> KEY_229" "\<not> keyStopped (hook event)"
    and "isMetaKey H (keyCode (hook event))"
  shows "onKeyDown H hook event s =
     keySwitch (hook event)
       ((ctrlKey (hook event) \<or> metaKey (hook event)) \<and> \<not> altKey (hook event))
       (s\<lparr>em_calls := em_calls s @ [RunHooks beforeKeyDown],
          lastKeyCode := Some (keyCode (hook event))\<rparr>)"
  using assms by (simp add: onKeyDown_def Let_def em_call_def)

lemma keySwitch_ARROW_UP:
  assumes "keyCode ev = ARROW_UP"
  shows "keySwitch ev ctrlDown s =
    s\<lparr>em_calls := em_calls s
          @ (if \<exists>e. activeEditor s = Some e \<and> isOpened e \<and> \<not> isWaiting e
             then [FinishEditing False (Some ctrlDown) None] else [])
          @ [if shiftKey ev then TransformEnd (- 1) 0 else TransformStart (- 1) 0 False,
             PreventDefault, StopPropagation]\<rparr>"
  using assms
  by (auto simp add: keySwitch_def Let_def em_simps moveSelectionUp_def split: option.splits)

lemma keySwitch_ARROW_DOWN:
  assumes "keyCode ev = ARROW_DOWN"
  shows "keySwitch ev ctrlDown s =
    s\<lparr>em_calls := em_calls s
          @ (if \<exists>e. activeEditor s = Some e \<and> isOpened e \<and> \<not> isWaiting e
             then [FinishEditing False (Some ctrlDown) None] else [])
          @ [if shiftKey ev then TransformEnd 1 0 else TransformStart 1 0 False,
             PreventDefault, StopPropagation]\<rparr>"
  using assms
  by (auto simp add: keySwitch_def Let_def em_simps moveSelectionDown_def split: option.splits)

lemma keySwitch_ARROW_RIGHT:
  assumes "keyCode ev = ARROW_RIGHT"
  shows "keySwitch ev ctrlDown s =
    s\<lparr>em_calls := em_calls s
          @ (if \<exists>e. activeEditor s = Some e \<and> isOpened e \<and> \<not> isWaiting e
             then [FinishEditing False (Some ctrlDown) None] else [])
          @ [if shiftKey ev then TransformEnd 0 1 else TransformStart 0 1 False,
             PreventDefault, StopPropagation]\<rparr>"
  using assms
  by (auto simp add: keySwitch_def Let_def em_simps moveSelectionRight_def split: option.splits)

lemma keySwitch_ARROW_LEFT:
  assumes "keyCode ev = ARROW_LEFT"
  shows "keySwitch ev ctrlDown s =
    s\<lparr>em_calls := em_calls s
          @ (if \<exists>e. activeEditor s = Some e \<and> isOpened e \<and> \<not> isWaiting e
             then [FinishEditing False (Some ctrlDown) None] else [])
          @ [if shiftKey ev then TransformEnd 0 (- 1) else TransformStart 0 (- 1) False,
             PreventDefault, StopPropagation]\<rparr>"
  using assms
  by (auto simp add: keySwitch_def Let_def em_simps moveSelectionLeft_def split: option.splits)

text \<open>
  C4. An arrow keydown that \<open>onKeyDown\<close> processes (the grid listens, the manager is
  not destroyed, no \<open>beforeKeyDown\<close> listener stopped the event, a selection exists;
  the arrow is a meta key for \<open>isMetaKey\<close>) first calls \<open>finishEditing(false, ctrlDown)\<close>
  when the active editor is opened and not waiting, then calls \<open>transformStart\<close> with a
  step of one on the key's axis, or with Shift \<open>transformEnd\<close> with that step and no
  \<open>transformStart\<close>, and last prevents the default and stops propagation.
\<close>

theorem arrow_keydown_closes_then_moves:
  fixes H :: helpers and hook :: "key_event \<Rightarrow> key_event" and event :: key_event
    and s :: em_state
  defines "ev \<equiv> hook event"
  defines "ctrlDown \<equiv> (ctrlKey ev \<or> metaKey ev) \<and> \<not> altKey ev"
  defines "closing \<equiv>
             (if \<exists>e. activeEditor s = Some e \<and> isOpened e \<and> \<not> isWaiting e
              then [FinishEditing False (Some ctrlDown) None] else [])"
  assumes "isListening s" "\<not> destroyed s" "isSelected s"
    and "\<not> keyStopped ev"
    and "isMetaKey H (keyCode ev)"
  shows "(keyCode ev = ARROW_UP \<longrightarrow>
            onKeyDown H hook event s =
              s\<lparr>lastKeyCode := Some ARROW_UP,
                em_calls := em_calls s @ [RunHooks beforeKeyDown] @ closing
                  @ [if shiftKey ev then TransformEnd (- 1) 0 else TransformStart (- 1) 0 False,
                     PreventDefault, StopPropagation]\<rparr>)
       \<and> (keyCode ev = ARROW_DOWN \<longrightarrow>
            onKeyDown H hook event s =
              s\<lparr>lastKeyCode := Some ARROW_DOWN,
                em_calls := em_calls s @ [RunHooks beforeKeyDown] @ closing
                  @ [if shiftKey ev then TransformEnd 1 0 else TransformStart 1 0 False,
                     PreventDefault, StopPropagation]\<rparr>)
       \<and> (keyCode ev = ARROW_LEFT \<longrightarrow>
            onKeyDown H hook event s =
              s\<lparr>lastKeyCode := Some ARROW_LEFT,
                em_calls := em_calls s @ [RunHooks beforeKeyDown] @ closing
                  @ [if shiftKey ev then TransformEnd 0 (- 1) else TransformStart 0 (- 1) False,
                     PreventDefault, StopPropagation]\<rparr>)
       \<and> (keyCode ev = ARROW_RIGHT \<longrightarrow>
            onKeyDown H hook event s =
              s\<lparr>lastKeyCode := Some ARROW_RIGHT,
                em_calls := em_calls s @ [RunHooks beforeKeyDown] @ closing
                  @ [if shiftKey ev then TransformEnd 0 1 else TransformStart 0 1 False,
                     PreventDefault, StopPropagation]\<rparr>)"
proof -
  have switch: "keyCode ev \<noteq> KEY_229 \<Longrightarrow> onKeyDown H hook event s =
     keySwitch ev ctrlDown
       (s\<lparr>em_calls := em_calls s @ [RunHooks beforeKeyDown],
          lastKeyCode := Some (keyCode ev)\<rparr>)"
    using assms(4-8) onKeyDown_reaches_switch [of s hook event H]
    by (simp add: ev_def ctrlDown_def)
  show ?thesis
    by (simp add: switch closing_def keySwitch_ARROW_UP keySwitch_ARROW_DOWN
        keySwitch_ARROW_LEFT keySwitch_ARROW_RIGHT)
qed

theorem arrow_keydown_closes_then_moves_witness:
  "isListening opened0 \<and> \<not> destroyed opened0 \<and> isSelected opened0
   \<and> \<not> keyStopped (id keydown0) \<and> isMetaKey helpers0 (keyCode (id keydown0))
   \<and> keyCode (id keydown0) = ARROW_DOWN
   \<and> onKeyDown helpers0 id keydown0 opened0 =
       opened0\<lparr>lastKeyCode := Some ARROW_DOWN,
               em_calls := [RunHooks beforeKeyDown, FinishEditing False (Some False) None,
                            TransformStart 1 0 False, PreventDefault, StopPropagation]\<rparr>
   \<and> isMetaKey helpers0 (keyCode (id (keydown0\<lparr>keyCode := ARROW_LEFT, shiftKey := True\<rparr>)))
   \<and> onKeyDown helpers0 id (keydown0\<lparr>keyCode := ARROW_LEFT, shiftKey := True\<rparr>) manager0 =
       manager0\<lparr>lastKeyCode := Some ARROW_LEFT,
                em_calls := [RunHooks beforeKeyDown, TransformEnd 0 (- 1),
                             PreventDefault, StopPropagation]\<rparr>"
  using arrow_keydown_closes_then_moves
      [where s = opened0 and H = helpers0 and hook = id and event = keydown0]
    arrow_keydown_closes_then_moves
      [where s = manager0 and H = helpers0 and hook = id
         and event = "keydown0\<lparr>keyCode := ARROW_LEFT, shiftKey := True\<rparr>"]
  by (simp add: opened0_def manager0_def helpers0_def keydown0_def editor0_def)

lemma onKeyDown_typing:
  assumes "isListening s" "\<not> destroyed s" "isSelected s"
    and "\<not> keyStopped (hook event)" "keyCode (hook event) \<noteq> KEY_229"
    and "activeEditor s = Some e" "\<not> isWaiting e" "\<not> isOpened e"
    and "\<not> isMetaKey H (keyCode (hook event))" "\<not> isCtrlMetaKey H (keyCode (hook event))"
    and "\<not> ((ctrlKey (hook event) \<or> metaKey (hook event)) \<and> \<not> altKey (hook event))"
  shows "onKeyDown H hook event s =
           openEditor (Some []) (Some (hook event))
             (s\<lparr>em_calls := em_calls s @ [RunHooks beforeKeyDown],
                lastKeyCode := Some (keyCode (hook event))\<rparr>)"
  using assms by (simp add: onKeyDown_def Let_def em_call_def isEditorOpened_def)

lemma openEditor_calls:
  assumes "activeEditor s = Some e"
  shows "openEditor v (Some ev) s =
           s\<lparr>em_calls := em_calls s
               @ (if \<not> readOnly e then [BeginEditing v]
                  else if keyCode ev = ENTER
                    then [TransformStart (fst (resolveMoves (enterMoves s) ev))
                            (snd (resolveMoves (enterMoves s) ev)) True]
                  else [])\<rparr>"
  using assms
  by (simp add: openEditor_def moveSelectionAfterEnter_def em_call_def split_beta)

text \<open>
  C10. The claim: a processed keydown with a selection and an active editor that is
  neither waiting nor opened, for a key that is no meta key and no ctrl/meta key code,
  with Ctrl/Meta not held, opens the editor with the empty string and skips the key
  dispatch. On a read-only cell the same keydown (key code 88) calls nothing after the
  \<open>beforeKeyDown\<close> hook: no editor begins editing.
\<close>

theorem typing_key_on_readOnly_cell_opens_nothing:
  "isListening readOnly0 \<and> \<not> destroyed readOnly0 \<and> isSelected readOnly0
   \<and> \<not> keyStopped keydownX \<and> keyCode keydownX \<noteq> KEY_229
   \<and> (\<exists>e. activeEditor readOnly0 = Some e \<and> \<not> isWaiting e \<and> \<not> isOpened e)
   \<and> \<not> isMetaKey helpers0 (keyCode keydownX)
   \<and> \<not> isCtrlMetaKey helpers0 (keyCode keydownX)
   \<and> \<not> ctrlKey keydownX \<and> \<not> metaKey keydownX
   \<and> onKeyDown helpers0 id keydownX readOnly0 =
       readOnly0\<lparr>lastKeyCode := Some (OTHER_KEY 88), em_calls := [RunHooks beforeKeyDown]\<rparr>
   \<and> BeginEditing (Some []) \<notin> set (em_calls (onKeyDown helpers0 id keydownX readOnly0))"
  by (simp add: onKeyDown_def openEditor_def isEditorOpened_def em_call_def Let_def
      readOnly0_def manager0_def helpers0_def keydownX_def keydown0_def editor0_def)

text \<open>
  C10 as amended. Such a keydown runs \<open>openEditor('', event)\<close> and nothing of the key
  dispatch: after the \<open>beforeKeyDown\<close> hook the only call is \<open>beginEditing('')\<close> on
  the active editor when its cell is not read-only; on a read-only cell nothing is
  called, except that Enter moves the selection by \<open>enterMoves\<close>.
\<close>

theorem typing_key_calls_openEditor:
  fixes H :: helpers and hook :: "key_event \<Rightarrow> key_event" and event :: key_event
    and s :: em_state
  defines "ev \<equiv> hook event"
  assumes "isListening s" "\<not> destroyed s" "isSelected s"
    and "\<not> keyStopped ev" "keyCode ev \<noteq> KEY_229"
    and "activeEditor s = Some e" "\<not> isWaiting e" "\<not> isOpened e"
    and "\<not> isMetaKey H (keyCode ev)" "\<not> isCtrlMetaKey H (keyCode ev)"
    and "\<not> ((ctrlKey ev \<or> metaKey ev) \<and> \<not> altKey ev)"
  shows "onKeyDown H hook event s =
           s\<lparr>lastKeyCode := Some (keyCode ev),
             em_calls := em_calls s @ [RunHooks beforeKeyDown]
               @ (if \<not> readOnly e then [BeginEditing (Some [])]
                  else if keyCode ev = ENTER
                    then [TransformStart (fst (resolveMoves (enterMoves s) ev))
                            (snd (resolveMoves (enterMoves s) ev)) True]
                  else [])\<rparr>"
proof -
  have "onKeyDown H hook event s =
           openEditor (Some []) (Some ev)
             (s\<lparr>em_calls := em_calls s @ [RunHooks beforeKeyDown],
                lastKeyCode := Some (keyCode ev)\<rparr>)"
    using assms(2-12) onKeyDown_typing [of s hook event e H] by (simp add: ev_def)
  then show ?thesis
    using assms(7) by (simp add: openEditor_calls [where e = e])
qed

theorem typing_key_calls_openEditor_witness:
  "isListening manager0 \<and> \<not> destroyed manager0 \<and> isSelected manager0
   \<and> \<not> keyStopped (id keydownX) \<and> keyCode (id keydownX) \<noteq> KEY_229
   \<and> activeEditor manager0 = Some editor0 \<and> \<not> isWaiting editor0 \<and> \<not> isOpened editor0
   \<and> \<not> isMetaKey helpers0 (keyCode (id keydownX))
   \<and> \<not> isCtrlMetaKey helpers0 (keyCode (id keydownX))
   \<and> onKeyDown helpers0 id keydownX manager0 =
       manager0\<lparr>lastKeyCode := Some (OTHER_KEY 88),
                em_calls := [RunHooks beforeKeyDown, BeginEditing (Some [])]\<rparr>"
  using typing_key_calls_openEditor
      [where s = manager0 and H = helpers0 and hook = id and event = keydownX and e = editor0]
  by (simp add: manager0_def helpers0_def keydownX_def keydown0_def editor0_def)

end
